theory Spec2Isabelle
  imports Main "HOL-Library.Sublist"
begin

section \<open>Project names (project-manager.ts)\<close>

text \<open>
  \<^verbatim>\<open>validateProjectName\<close> tests its argument against the regular expression
  \<^verbatim>\<open>/^[^<>:;,?"*|/\\]+$/\<close>. The expression is kept as data: an optional start
  anchor, a sequence of single-character atoms each with a quantifier, and an optional
  end anchor. \<open>match_here\<close> is the backtracking matcher (a greedy \<open>+\<close> tries the longer
  match first and falls back to the shorter one).
\<close>

datatype quantifier = Once | OneOrMore

datatype atom = Class string | NegClass string

record regex =
  bol :: bool
  items :: "(atom \<times> quantifier) list"
  eol :: bool

fun atom_matches :: "atom \<Rightarrow> char \<Rightarrow> bool" where
  "atom_matches (Class cs) c = (c \<in> set cs)"
| "atom_matches (NegClass cs) c = (c \<notin> set cs)"

fun match_here :: "(atom \<times> quantifier) list \<Rightarrow> bool \<Rightarrow> string \<Rightarrow> bool" where
  "match_here [] e s = (if e then s = [] else True)"
| "match_here ((a, q) # r) e [] = False"
| "match_here ((a, Once) # r) e (c # s) = (atom_matches a c \<and> match_here r e s)"
| "match_here ((a, OneOrMore) # r) e (c # s) =
     (atom_matches a c \<and> (match_here ((a, OneOrMore) # r) e s \<or> match_here r e s))"

fun match_from :: "(atom \<times> quantifier) list \<Rightarrow> bool \<Rightarrow> string \<Rightarrow> bool" where
  "match_from r e [] = match_here r e []"
| "match_from r e (c # s) = (match_here r e (c # s) \<or> match_from r e s)"

definition regex_test :: "regex \<Rightarrow> string \<Rightarrow> bool" where
  "regex_test re s =
     (if bol re then match_here (items re) (eol re) s else match_from (items re) (eol re) s)"

text \<open>The characters of the class, in the order of the source: \<^verbatim>\<open><>:;,?"*|/\\<close>.\<close>

definition forbidden_chars :: string where
  "forbidden_chars = ''<>:;,?'' @ [CHR 0x22] @ ''*|/'' @ [CHR 0x5C]"

definition project_name_regex :: regex where
  "project_name_regex =
     \<lparr>bol = True, items = [(NegClass forbidden_chars, OneOrMore)], eol = True\<rparr>"

definition validateProjectName :: "string \<Rightarrow> bool" where
  "validateProjectName name = regex_test project_name_regex name"

section \<open>The template engine (the ejs library, as template.ts uses it)\<close>

text \<open>
  template.ts renders file contents and file names with \<^verbatim>\<open>ejs.render\<close>. The library is
  not part of the repository; what follows is its documented behaviour on the templates
  that consist of literal text, output tags and comment tags: the template is cut into
  tokens at the tag delimiters, every opening tag must be closed two tokens later, and
  the tokens are scanned with a mode that says how the text between two tags is used.
  An escaped output tag (\<^verbatim>\<open><%= x %>\<close>) appends the value with the five HTML characters
  replaced by entities, a raw output tag (\<^verbatim>\<open><%- x %>\<close>) appends the value as it is,
  and a value that is \<^verbatim>\<open>undefined\<close> appends nothing. Everything else a template
  can do (scriptlets, arbitrary JavaScript expressions, whitespace slurping) is left to a
  parameter \<open>E\<close> that stands for the library on those templates.
\<close>

datatype jsval = JUndefined | JString string | JObject

type_synonym locals = "(string \<times> jsval) list"

record delimiters =
  openDelimiter :: string
  delimiter :: string
  closeDelimiter :: string

definition default_delimiters :: delimiters where
  "default_delimiters = \<lparr>openDelimiter = ''<'', delimiter = ''%'', closeDelimiter = ''>''\<rparr>"

datatype ejs_error = NoMatchingCloseTag string | JsError string

type_synonym engine = "delimiters \<Rightarrow> string \<Rightarrow> locals \<Rightarrow> ejs_error + string"

text \<open>The alternatives of the delimiter pattern, in the order the library tries them.\<close>

definition tag_tokens :: "delimiters \<Rightarrow> string list" where
  "tag_tokens dl =
     (let o' = openDelimiter dl; d = delimiter dl; c = closeDelimiter dl
      in [o' @ d @ d, d @ d @ c, o' @ d @ ''='', o' @ d @ ''-'', o' @ d @ ''_'',
          o' @ d @ ''#'', o' @ d, d @ c, ''-'' @ d @ c, ''_'' @ d @ c])"

fun find_tag :: "string list \<Rightarrow> string \<Rightarrow> string option" where
  "find_tag [] s = None"
| "find_tag (t # ts) s = (if t \<noteq> [] \<and> prefix t s then Some t else find_tag ts s)"

definition flush :: "string \<Rightarrow> string list" where
  "flush acc = (if acc = [] then [] else [rev acc])"

text \<open>
  \<open>scan_tokens tags k acc s\<close>: \<open>s\<close> is the text still to read, \<open>acc\<close> the literal text
  read since the last tag (reversed) and \<open>k\<close> the number of characters of \<open>s\<close> that belong
  to the tag just emitted.
\<close>

fun scan_tokens :: "string list \<Rightarrow> nat \<Rightarrow> string \<Rightarrow> string \<Rightarrow> string list" where
  "scan_tokens tags k acc [] = flush acc"
| "scan_tokens tags (Suc k) acc (ch # s) = scan_tokens tags k acc s"
| "scan_tokens tags 0 acc (ch # s) =
     (case find_tag tags (ch # s) of
        Some t \<Rightarrow> flush acc @ [t] @ scan_tokens tags (length t - 1) [] s
      | None \<Rightarrow> scan_tokens tags 0 (ch # acc) s)"

definition parseTemplateText :: "delimiters \<Rightarrow> string \<Rightarrow> string list" where
  "parseTemplateText dl s = scan_tokens (tag_tokens dl) 0 [] s"

definition is_open_tag :: "delimiters \<Rightarrow> string \<Rightarrow> bool" where
  "is_open_tag dl line =
     (prefix (openDelimiter dl @ delimiter dl) line
      \<and> \<not> prefix (openDelimiter dl @ delimiter dl @ delimiter dl) line)"

definition is_close_tag :: "delimiters \<Rightarrow> string \<Rightarrow> bool" where
  "is_close_tag dl line =
     (let d = delimiter dl; c = closeDelimiter dl
      in line = d @ c \<or> line = ''-'' @ d @ c \<or> line = ''_'' @ d @ c)"

text \<open>The check of \<^verbatim>\<open>generateSource\<close>: the token two places after an opening tag closes it.\<close>

fun check_tags :: "delimiters \<Rightarrow> string list \<Rightarrow> ejs_error option" where
  "check_tags dl [] = None"
| "check_tags dl (line # rest) =
     (if is_open_tag dl line
         \<and> \<not> (case rest of _ # closing # _ \<Rightarrow> is_close_tag dl closing | _ \<Rightarrow> False)
      then Some (NoMatchingCloseTag line)
      else check_tags dl rest)"

datatype mode = EVAL | ESCAPED | RAW | COMMENT | LITERAL

datatype instr = Append string | AppendEscaped string | AppendRaw string | Scriptlet string

fun strip_linebreak :: "string \<Rightarrow> string" where
  "strip_linebreak (a # b # s) =
     (if a = CHR 0x0D \<and> b = CHR 0x0A then s
      else if a = CHR 0x0D \<or> a = CHR 0x0A then b # s else a # b # s)"
| "strip_linebreak [a] = (if a = CHR 0x0D \<or> a = CHR 0x0A then [] else [a])"
| "strip_linebreak [] = []"

definition addOutput :: "bool \<Rightarrow> string \<Rightarrow> instr list" where
  "addOutput trunc line =
     (let line' = (if trunc then strip_linebreak line else line)
      in if line' = [] then [] else [Append line'])"

text \<open>\<open>scanLine\<close> with its two state variables, the mode and the truncate flag.\<close>

fun scanLines :: "delimiters \<Rightarrow> mode option \<Rightarrow> bool \<Rightarrow> string list \<Rightarrow> instr list" where
  "scanLines dl m tr [] = []"
| "scanLines dl m tr (line # rest) =
     (let o' = openDelimiter dl; d = delimiter dl; c = closeDelimiter dl in
      if line = o' @ d \<or> line = o' @ d @ ''_'' then scanLines dl (Some EVAL) tr rest
      else if line = o' @ d @ ''='' then scanLines dl (Some ESCAPED) tr rest
      else if line = o' @ d @ ''-'' then scanLines dl (Some RAW) tr rest
      else if line = o' @ d @ ''#'' then scanLines dl (Some COMMENT) tr rest
      else if line = o' @ d @ d then Append (o' @ d) # scanLines dl (Some LITERAL) tr rest
      else if line = d @ d @ c then Append (d @ c) # scanLines dl (Some LITERAL) tr rest
      else if line = d @ c \<or> line = ''-'' @ d @ c \<or> line = ''_'' @ d @ c then
        (if m = Some LITERAL then addOutput tr line else [])
        @ scanLines dl None (prefix ''-'' line \<or> prefix ''_'' line) rest
      else (case m of
              Some EVAL \<Rightarrow> Scriptlet line # scanLines dl m tr rest
            | Some ESCAPED \<Rightarrow> AppendEscaped line # scanLines dl m tr rest
            | Some RAW \<Rightarrow> AppendRaw line # scanLines dl m tr rest
            | Some COMMENT \<Rightarrow> scanLines dl m tr rest
            | Some LITERAL \<Rightarrow> addOutput tr line @ scanLines dl m False rest
            | None \<Rightarrow> addOutput tr line @ scanLines dl m False rest))"

text \<open>\<^verbatim>\<open>escapeXML\<close>, the default escape function of the library.\<close>

definition encode_char :: "char \<Rightarrow> string" where
  "encode_char ch =
     (if ch = CHR ''&'' then ''&amp;''
      else if ch = CHR ''<'' then ''&lt;''
      else if ch = CHR ''>'' then ''&gt;''
      else if ch = CHR 0x22 then ''&#34;''
      else if ch = CHR 0x27 then ''&#39;''
      else [ch])"

text \<open>The characters \<^verbatim>\<open>escapeXML\<close> replaces: \<^verbatim>\<open>& < > " '\<close>.\<close>

definition html_chars :: string where
  "html_chars = ''&<>'' @ [CHR 0x22, CHR 0x27]"

definition escape_markup :: "string \<Rightarrow> string" where
  "escape_markup s = concat (map encode_char s)"

definition escapeXML :: "jsval \<Rightarrow> string option" where
  "escapeXML v = (case v of JUndefined \<Rightarrow> Some [] | JString s \<Rightarrow> Some (escape_markup s)
                  | JObject \<Rightarrow> None)"

definition append_raw :: "jsval \<Rightarrow> string option" where
  "append_raw v = (case v of JUndefined \<Rightarrow> Some [] | JString s \<Rightarrow> Some s | JObject \<Rightarrow> None)"

definition is_space :: "char \<Rightarrow> bool" where
  "is_space ch = (ch = CHR '' '' \<or> ch = CHR 0x09 \<or> ch = CHR 0x0A \<or> ch = CHR 0x0D)"

definition trim :: "string \<Rightarrow> string" where
  "trim s = rev (dropWhile is_space (rev (dropWhile is_space s)))"

text \<open>
  Running the instructions when every output tag names a local variable; \<open>None\<close> when an
  instruction needs the JavaScript interpreter.
\<close>

fun run_instrs :: "locals \<Rightarrow> instr list \<Rightarrow> string option" where
  "run_instrs data [] = Some []"
| "run_instrs data (Append s # is) = map_option (\<lambda>out. s @ out) (run_instrs data is)"
| "run_instrs data (AppendEscaped code # is) =
     (case map_of data (trim code) of
        None \<Rightarrow> None
      | Some v \<Rightarrow> (case escapeXML v of None \<Rightarrow> None
                   | Some s \<Rightarrow> map_option (\<lambda>out. s @ out) (run_instrs data is)))"
| "run_instrs data (AppendRaw code # is) =
     (case map_of data (trim code) of
        None \<Rightarrow> None
      | Some v \<Rightarrow> (case append_raw v of None \<Rightarrow> None
                   | Some s \<Rightarrow> map_option (\<lambda>out. s @ out) (run_instrs data is)))"
| "run_instrs data (Scriptlet code # is) = None"

text \<open>
  The library first slurps the white space around the tags \<^verbatim>\<open><%_\<close> and \<^verbatim>\<open>_%>\<close>;
  templates that contain either, with the default or with the given delimiters, are left
  to \<open>E\<close>.
\<close>

definition has_slurp_tag :: "delimiters \<Rightarrow> string \<Rightarrow> bool" where
  "has_slurp_tag dl template =
     (sublist ''<%_'' template \<or> sublist ''_%>'' template
      \<or> sublist (openDelimiter dl @ delimiter dl @ ''_'') template
      \<or> sublist (''_'' @ delimiter dl @ closeDelimiter dl) template)"

definition ejs_render :: "engine \<Rightarrow> string \<Rightarrow> locals \<Rightarrow> delimiters \<Rightarrow> ejs_error + string" where
  "ejs_render E template data dl =
     (if has_slurp_tag dl template then E dl template data
      else let matches = parseTemplateText dl template in
        case check_tags dl matches of
          Some err \<Rightarrow> Inl err
        | None \<Rightarrow> (case run_instrs data (scanLines dl None False matches) of
                     Some out \<Rightarrow> Inr out
                   | None \<Rightarrow> E dl template data))"

section \<open>Rendering contents and names (template.ts)\<close>

datatype language = Javascript | Typescript

datatype bundler = Webpack | Vite | Rollup

datatype package_manager = Npm | Yarn | Pnpm | Bun

record GenerateProjectOptions =
  targetPath :: string
  slug :: string
  description :: string
  authorName :: "string option"
  authorEmail :: "string option"
  authorUrl :: "string option"
  repoUrl :: "string option"
  language :: language
  bundler :: bundler
  packageManager :: package_manager

fun language_name :: "language \<Rightarrow> string" where
  "language_name Javascript = ''javascript''"
| "language_name Typescript = ''typescript''"

fun bundler_name :: "bundler \<Rightarrow> string" where
  "bundler_name Webpack = ''webpack''"
| "bundler_name Vite = ''vite''"
| "bundler_name Rollup = ''rollup''"

fun package_manager_name :: "package_manager \<Rightarrow> string" where
  "package_manager_name Npm = ''npm''"
| "package_manager_name Yarn = ''yarn''"
| "package_manager_name Pnpm = ''pnpm''"
| "package_manager_name Bun = ''bun''"

text \<open>\<^verbatim>\<open>x || ""\<close> on an optional string.\<close>

fun or_empty :: "string option \<Rightarrow> string" where
  "or_empty None = []"
| "or_empty (Some s) = s"

text \<open>
  An optional property of the options object: when it is unset, the object may lack the
  key or hold \<^verbatim>\<open>undefined\<close>, so the data then has no entry for it.
\<close>

fun optional :: "string \<Rightarrow> string option \<Rightarrow> locals" where
  "optional key None = []"
| "optional key (Some s) = [(key, JString s)]"

datatype errno = ENOENT | ENOTDIR | EISDIR | EEXIST

datatype syscall = Scandir | Mkdir | Open

datatype error =
    FileSystemError errno syscall
  | RenderTemplateError ejs_error
  | RenderFileNameError string ejs_error

text \<open>The data object \<^verbatim>\<open>renderTemplate\<close> builds, and its delimiters.\<close>

definition template_data :: "GenerateProjectOptions \<Rightarrow> locals" where
  "template_data options =
     [(''PACKAGE_NAME'', JString (slug options)),
      (''DESCRIPTION'', JString (description options)),
      (''AUTHOR_NAME'', JString (or_empty (authorName options))),
      (''AUTHOR_EMAIL'', JString (or_empty (authorEmail options))),
      (''AUTHOR_URL'', JString (or_empty (authorUrl options))),
      (''REPO_URL'', JString (or_empty (repoUrl options))),
      (''PACKAGE_MANAGER'', JString (package_manager_name (packageManager options))),
      (''options'', JObject)]"

definition template_delimiters :: delimiters where
  "template_delimiters = \<lparr>openDelimiter = ''{{'', delimiter = ''%'', closeDelimiter = ''}}''\<rparr>"

definition renderTemplate :: "engine \<Rightarrow> string \<Rightarrow> GenerateProjectOptions \<Rightarrow> error + string" where
  "renderTemplate E content options =
     (case ejs_render E content (template_data options) template_delimiters of
        Inr out \<Rightarrow> Inr out
      | Inl cause \<Rightarrow> Inl (RenderTemplateError cause))"

text \<open>
  \<^verbatim>\<open>renderFileName\<close> passes the options record itself as the data, with the default
  delimiters, after \<^verbatim>\<open>fileName.replace(/^\$/, "")\<close>.
\<close>

definition options_data :: "GenerateProjectOptions \<Rightarrow> locals" where
  "options_data options =
     [(''targetPath'', JString (targetPath options)),
      (''slug'', JString (slug options)),
      (''description'', JString (description options))]
     @ optional ''authorName'' (authorName options)
     @ optional ''authorEmail'' (authorEmail options)
     @ optional ''authorUrl'' (authorUrl options)
     @ optional ''repoUrl'' (repoUrl options)
     @ [(''language'', JString (language_name (language options))),
        (''bundler'', JString (bundler_name (bundler options))),
        (''packageManager'', JString (package_manager_name (packageManager options)))]"

fun strip_sentinel :: "string \<Rightarrow> string" where
  "strip_sentinel (ch # s) = (if ch = CHR ''$'' then s else ch # s)"
| "strip_sentinel [] = []"

definition renderFileName :: "engine \<Rightarrow> string \<Rightarrow> GenerateProjectOptions \<Rightarrow> error + string" where
  "renderFileName E fileName options =
     (case ejs_render E (strip_sentinel fileName) (options_data options) default_delimiters of
        Inr out \<Rightarrow> Inr out
      | Inl cause \<Rightarrow> Inl (RenderFileNameError fileName cause))"

section \<open>Paths and the file system (the Node path and fs modules)\<close>

text \<open>
  A path is kept in parsed form: the segments of a normalised absolute POSIX path, and
  whether the path string ends in a separator. \<open>path_join p name\<close> is
  \<^verbatim>\<open>path.join(p, name)\<close>: the name is split at \<^verbatim>\<open>/\<close>, empty segments and \<^verbatim>\<open>.\<close> are
  dropped and \<^verbatim>\<open>..\<close> removes the segment before it.
\<close>

record path =
  segs :: "string list"
  trailing :: bool

fun split_sep :: "string \<Rightarrow> string \<Rightarrow> string list" where
  "split_sep acc [] = [rev acc]"
| "split_sep acc (ch # s) =
     (if ch = CHR ''/'' then rev acc # split_sep [] s else split_sep (ch # acc) s)"

fun normalize_segs :: "string list \<Rightarrow> string list \<Rightarrow> string list" where
  "normalize_segs res [] = res"
| "normalize_segs res (seg # rest) =
     (if seg = [] \<or> seg = ''.'' then normalize_segs res rest
      else if seg = ''..'' then normalize_segs (butlast res) rest
      else normalize_segs (res @ [seg]) rest)"

definition path_join :: "path \<Rightarrow> string \<Rightarrow> path" where
  "path_join p name =
     \<lparr>segs = normalize_segs [] (segs p @ (if name = [] then [] else split_sep [] name)),
      trailing = (if name = [] then trailing p else last name = CHR ''/'')\<rparr>"

definition parse_path :: "string \<Rightarrow> path" where
  "parse_path s = path_join \<lparr>segs = [], trailing = False\<rparr> s"

text \<open>
  The destination file system maps the segments of a path to what is there. The root
  always is a directory.
\<close>

datatype node = File string | Dir

type_synonym filesystem = "string list \<rightharpoonup> node"

definition node_at :: "filesystem \<Rightarrow> string list \<Rightarrow> node option" where
  "node_at fs ss = (if ss = [] then Some Dir else fs ss)"

definition is_file :: "filesystem \<Rightarrow> string list \<Rightarrow> bool" where
  "is_file fs ss = (case node_at fs ss of Some (File _) \<Rightarrow> True | _ \<Rightarrow> False)"

fun proper_prefixes :: "'a list \<Rightarrow> 'a list list" where
  "proper_prefixes [] = []"
| "proper_prefixes (x # xs) = [] # map ((#) x) (proper_prefixes xs)"

fun make_dirs :: "string list list \<Rightarrow> filesystem \<Rightarrow> filesystem" where
  "make_dirs [] fs = fs"
| "make_dirs (d # ds) fs = make_dirs ds (if node_at fs d = None then fs(d \<mapsto> Dir) else fs)"

text \<open>
  \<^verbatim>\<open>fs.mkdirSync(p, { recursive: true })\<close>: fails when the path or one of its ancestors
  is a file, and otherwise creates the missing directories; an existing directory is not
  an error.
\<close>

definition mkdirSync :: "path \<Rightarrow> filesystem \<Rightarrow> error + filesystem" where
  "mkdirSync p fs =
     (if list_ex (is_file fs) (proper_prefixes (segs p)) then Inl (FileSystemError ENOTDIR Mkdir)
      else if is_file fs (segs p) then Inl (FileSystemError EEXIST Mkdir)
      else Inr (make_dirs (proper_prefixes (segs p) @ [segs p]) fs))"

text \<open>
  \<^verbatim>\<open>fs.writeFileSync(p, data)\<close>: the parent must be a directory and the path must not be
  one (nor end in a separator); an existing file is replaced.
\<close>

definition writeFileSync :: "path \<Rightarrow> string \<Rightarrow> filesystem \<Rightarrow> error + filesystem" where
  "writeFileSync p content fs =
     (if list_ex (is_file fs) (proper_prefixes (segs p)) then Inl (FileSystemError ENOTDIR Open)
      else if node_at fs (butlast (segs p)) = None then Inl (FileSystemError ENOENT Open)
      else if node_at fs (segs p) = Some Dir then Inl (FileSystemError EISDIR Open)
      else if trailing p then
        Inl (FileSystemError (if is_file fs (segs p) then ENOTDIR else EISDIR) Open)
      else Inr (fs(segs p \<mapsto> File content)))"

section \<open>Copying a template tree (template.ts)\<close>

text \<open>
  A template root is outside the destination directory, so a pass never reads what it
  writes: the template is a value, a tree of named entries in the order
  \<^verbatim>\<open>readdirSync\<close> lists them, and \<open>None\<close> stands for a path where nothing exists.
\<close>

datatype template = TFile string | TDir "(string \<times> template) list"

fun isDirectory :: "template \<Rightarrow> bool" where
  "isDirectory (TDir _) = True"
| "isDirectory (TFile _) = False"

fun readFileSync :: "template \<Rightarrow> error + string" where
  "readFileSync (TFile content) = Inr content"
| "readFileSync (TDir _) = Inl (FileSystemError EISDIR Open)"

text \<open>The error of \<^verbatim>\<open>readdirSync\<close> on a path where nothing exists.\<close>

definition SourceNotFound :: error where
  "SourceNotFound = FileSystemError ENOENT Scandir"

type_synonym outcome = "error option \<times> filesystem"

fun copyTemplateFiles ::
    "engine \<Rightarrow> template option \<Rightarrow> path \<Rightarrow> GenerateProjectOptions \<Rightarrow> filesystem \<Rightarrow> outcome"
  and copy_entries ::
    "engine \<Rightarrow> (string \<times> template) list \<Rightarrow> path \<Rightarrow> GenerateProjectOptions \<Rightarrow> filesystem \<Rightarrow> outcome"
where
  "copyTemplateFiles E None target options fs = (Some SourceNotFound, fs)"
| "copyTemplateFiles E (Some (TFile content)) target options fs =
     (Some (FileSystemError ENOTDIR Scandir), fs)"
| "copyTemplateFiles E (Some (TDir files)) target options fs =
     copy_entries E files target options fs"
| "copy_entries E [] target options fs = (None, fs)"
| "copy_entries E ((name, file) # files) target options fs =
     (case renderFileName E name options of
        Inl err \<Rightarrow> (Some err, fs)
      | Inr destName \<Rightarrow>
          (let destPath = path_join target destName in
           if isDirectory file then
             (case mkdirSync destPath fs of
                Inl err \<Rightarrow> (Some err, fs)
              | Inr fs1 \<Rightarrow>
                  (case copyTemplateFiles E (Some file) destPath options fs1 of
                     (Some err, fs2) \<Rightarrow> (Some err, fs2)
                   | (None, fs2) \<Rightarrow> copy_entries E files target options fs2))
           else
             (case readFileSync file of
                Inl err \<Rightarrow> (Some err, fs)
              | Inr content \<Rightarrow>
                  (case renderTemplate E content options of
                     Inl err \<Rightarrow> (Some err, fs)
                   | Inr processedContent \<Rightarrow>
                       (case writeFileSync destPath processedContent fs of
                          Inl err \<Rightarrow> (Some err, fs)
                        | Inr fs1 \<Rightarrow> copy_entries E files target options fs1)))))"

definition existsSync :: "template option \<Rightarrow> bool" where
  "existsSync t = (t \<noteq> None)"

text \<open>
  \<open>copyTemplate E common specific target options fs\<close>: \<open>specific\<close> is what is at
  \<^verbatim>\<open>templatePath\<close> and \<open>common\<close> what is at its sibling \<^verbatim>\<open>common\<close>.
\<close>

definition copyTemplate ::
    "engine \<Rightarrow> template option \<Rightarrow> template option \<Rightarrow> path \<Rightarrow> GenerateProjectOptions
      \<Rightarrow> filesystem \<Rightarrow> outcome" where
  "copyTemplate E common specific target options fs =
     (case (if existsSync common then copyTemplateFiles E common target options fs
            else (None, fs)) of
        (Some err, fs1) \<Rightarrow> (Some err, fs1)
      | (None, fs1) \<Rightarrow> copyTemplateFiles E specific target options fs1)"

section \<open>What a template tree holds, by destination\<close>

text \<open>
  \<open>rendered_files\<close> lists the files of a tree in the order in which a pass copies them,
  each with its relative path after name rendering (the rendered names from the root of
  the tree down to the file) and its rendered content. \<open>dest_writes\<close> lists the same
  files with the destination path that the pass computes for them. An entry whose name
  or content does not render holds nothing.
\<close>

fun rendered_files ::
    "engine \<Rightarrow> GenerateProjectOptions \<Rightarrow> (string \<times> template) list \<Rightarrow> (string list \<times> string) list"
where
  "rendered_files E options [] = []"
| "rendered_files E options ((name, TFile content) # files) =
     (case renderFileName E name options of
        Inl err \<Rightarrow> []
      | Inr destName \<Rightarrow>
          (case renderTemplate E content options of
             Inl err \<Rightarrow> []
           | Inr out \<Rightarrow> [([destName], out)]))
     @ rendered_files E options files"
| "rendered_files E options ((name, TDir children) # files) =
     (case renderFileName E name options of
        Inl err \<Rightarrow> []
      | Inr destName \<Rightarrow>
          map (\<lambda>(names, out). (destName # names, out)) (rendered_files E options children))
     @ rendered_files E options files"

fun dest_writes ::
    "engine \<Rightarrow> GenerateProjectOptions \<Rightarrow> (string \<times> template) list \<Rightarrow> path
      \<Rightarrow> (string list \<times> string) list"
where
  "dest_writes E options [] target = []"
| "dest_writes E options ((name, TFile content) # files) target =
     (case renderFileName E name options of
        Inl err \<Rightarrow> []
      | Inr destName \<Rightarrow>
          (case renderTemplate E content options of
             Inl err \<Rightarrow> []
           | Inr out \<Rightarrow> [(segs (path_join target destName), out)]))
     @ dest_writes E options files target"
| "dest_writes E options ((name, TDir children) # files) target =
     (case renderFileName E name options of
        Inl err \<Rightarrow> []
      | Inr destName \<Rightarrow> dest_writes E options children (path_join target destName))
     @ dest_writes E options files target"

text \<open>The content of the last entry of a list of writes that goes to a given path.\<close>

definition last_write :: "(string list \<times> string) list \<Rightarrow> string list \<Rightarrow> string option" where
  "last_write ws p = map_of (rev ws) p"

text \<open>
  A plain name is a single path segment: not empty, without separator, and neither
  \<^verbatim>\<open>.\<close> nor \<^verbatim>\<open>..\<close>. The names of directory entries are plain.
\<close>

definition plain :: "string \<Rightarrow> bool" where
  "plain name = (name \<noteq> [] \<and> CHR ''/'' \<notin> set name \<and> name \<noteq> ''.'' \<and> name \<noteq> ''..'')"

section \<open>Running commands (command-runner.ts, commands.ts)\<close>

datatype stdio = Inherit | Ignore | Pipe

record spawn_call =
  command :: string
  args :: "string list"
  cwd :: "string option"
  stdio :: "stdio option"

text \<open>
  A child process either closes with an exit code (none when a signal ended it) or
  emits an error. The state of the run holds the destination file system, the calls
  spawned so far and the lines written to the console; \<open>runner\<close> says how a child
  ends, given the state it is spawned in.
\<close>

datatype child_result = Closed "nat option" | SpawnError string

record world =
  files :: filesystem
  calls :: "spawn_call list"
  console :: "string list"

type_synonym runner = "world \<Rightarrow> spawn_call \<Rightarrow> child_result"

datatype failure =
    Thrown error
  | CommandFailed string "string list" "nat option"
  | SpawnFailed string

definition buildCommand :: "bool \<Rightarrow> string \<Rightarrow> string list \<Rightarrow> string \<times> string list" where
  "buildCommand isWin cmd as =
     (if isWin then (''cmd.exe'', [''/c'', cmd] @ as) else (cmd, as))"

definition runCommand ::
    "bool \<Rightarrow> runner \<Rightarrow> string \<Rightarrow> string list \<Rightarrow> string option \<Rightarrow> stdio option \<Rightarrow> world
      \<Rightarrow> (failure + unit) \<times> world" where
  "runCommand isWin run cmd as dir io w =
     (let (cmd', as') = buildCommand isWin cmd as;
          call = \<lparr>command = cmd', args = as', cwd = dir, stdio = io\<rparr>;
          w' = w\<lparr>calls := calls w @ [call]\<rparr>
      in case run w call of
           Closed code \<Rightarrow> (if code = Some 0 then (Inr (), w') else (Inl (CommandFailed cmd as code), w'))
         | SpawnError msg \<Rightarrow> (Inl (SpawnFailed msg), w'))"

definition installDependencies ::
    "bool \<Rightarrow> runner \<Rightarrow> string \<Rightarrow> string \<Rightarrow> world \<Rightarrow> (failure + unit) \<times> world" where
  "installDependencies isWin run target pm w =
     (let cmd = (if pm = ''yarn'' then ''yarn'' else if pm = ''pnpm'' then ''pnpm''
                 else if pm = ''bun'' then ''bun'' else ''npm'')
      in runCommand isWin run cmd [''install''] (Some target) None w)"

definition git_warning :: string where
  "git_warning = ''Warning: Git initialization failed''"

text \<open>
  \<^verbatim>\<open>initializeGit\<close>: the three commands run inside one \<^verbatim>\<open>try\<close>; \<open>caught\<close> is its
  \<^verbatim>\<open>catch\<close>, which writes a warning and does not throw again.
\<close>

definition caught :: "world \<Rightarrow> (failure + unit) \<times> world" where
  "caught w = (Inr (), w\<lparr>console := console w @ [git_warning]\<rparr>)"

definition initializeGit :: "bool \<Rightarrow> runner \<Rightarrow> string \<Rightarrow> world \<Rightarrow> (failure + unit) \<times> world" where
  "initializeGit isWin run target w =
     (case runCommand isWin run ''git'' [''init''] (Some target) (Some Ignore) w of
        (Inl err, w1) \<Rightarrow> caught w1
      | (Inr u1, w1) \<Rightarrow>
          (case runCommand isWin run ''git'' [''add'', ''.''] (Some target) (Some Ignore) w1 of
             (Inl err, w2) \<Rightarrow> caught w2
           | (Inr u2, w2) \<Rightarrow>
               (case runCommand isWin run ''git''
                       [''commit'', ''-m'', [CHR 0x22] @ ''Initial commit'' @ [CHR 0x22]]
                       (Some target) (Some Ignore) w2 of
                  (Inl err, w3) \<Rightarrow> caught w3
                | (Inr u3, w3) \<Rightarrow> (Inr (), w3))))"

section \<open>The create command (index.ts)\<close>

text \<open>
  The directory \<^verbatim>\<open>templates\<close> next to the program is a function from the name of a
  subdirectory to the tree there. The target path is absolute: \<^verbatim>\<open>create\<close> builds it
  with \<^verbatim>\<open>path.join(process.cwd(), projectName)\<close>.
\<close>

type_synonym catalog = "string \<Rightarrow> template option"

definition generateProject ::
    "engine \<Rightarrow> catalog \<Rightarrow> GenerateProjectOptions \<Rightarrow> filesystem \<Rightarrow> outcome" where
  "generateProject E templates options fs =
     (case mkdirSync (parse_path (targetPath options)) fs of
        Inl err \<Rightarrow> (Some err, fs)
      | Inr fs1 \<Rightarrow>
          copyTemplate E (templates ''common'')
            (templates (language_name (language options) @ ''-'' @ bundler_name (bundler options)))
            (parse_path (targetPath options)) options fs1)"

datatype exit = Succeeded | Exit1 failure

text \<open>
  The \<^verbatim>\<open>try\<close> block of \<^verbatim>\<open>create\<close> and its \<^verbatim>\<open>catch\<close>, once the answers are collected in
  \<open>options\<close> (\<^verbatim>\<open>folder\<close> is its target path): each step is awaited before the next one
  starts, and an error thrown by a step ends the process with status 1.
\<close>

definition create ::
    "bool \<Rightarrow> runner \<Rightarrow> engine \<Rightarrow> catalog \<Rightarrow> GenerateProjectOptions \<Rightarrow> world \<Rightarrow> exit \<times> world" where
  "create isWin run E templates options w =
     (case generateProject E templates options (files w) of
        (Some err, fs1) \<Rightarrow> (Exit1 (Thrown err), w\<lparr>files := fs1\<rparr>)
      | (None, fs1) \<Rightarrow>
          (case installDependencies isWin run (targetPath options)
                  (package_manager_name (packageManager options)) (w\<lparr>files := fs1\<rparr>) of
             (Inl err, w1) \<Rightarrow> (Exit1 err, w1)
           | (Inr u, w1) \<Rightarrow>
               (case initializeGit isWin run (targetPath options) w1 of
                  (Inl err, w2) \<Rightarrow> (Exit1 err, w2)
                | (Inr u', w2) \<Rightarrow> (Succeeded, w2))))"

section \<open>The calls a run spawns\<close>

definition spawn_of :: "bool \<Rightarrow> string \<Rightarrow> string list \<Rightarrow> string option \<Rightarrow> stdio option \<Rightarrow> spawn_call" where
  "spawn_of isWin cmd as dir io =
     \<lparr>command = fst (buildCommand isWin cmd as), args = snd (buildCommand isWin cmd as),
      cwd = dir, stdio = io\<rparr>"

definition install_call :: "bool \<Rightarrow> GenerateProjectOptions \<Rightarrow> spawn_call" where
  "install_call isWin options =
     spawn_of isWin (package_manager_name (packageManager options)) [''install'']
       (Some (targetPath options)) None"

definition git_calls :: "bool \<Rightarrow> string \<Rightarrow> spawn_call list" where
  "git_calls isWin target =
     map (\<lambda>as. spawn_of isWin ''git'' as (Some target) (Some Ignore))
       [[''init''], [''add'', ''.''],
        [''commit'', ''-m'', [CHR 0x22] @ ''Initial commit'' @ [CHR 0x22]]]"

section \<open>A sample project\<close>

text \<open>Concrete inputs on which the theorems below are evaluated.\<close>

definition no_engine :: engine where
  "no_engine dl template data = Inl (JsError ''not supported'')"

definition sample_options :: GenerateProjectOptions where
  "sample_options =
     \<lparr>targetPath = ''/w/foo'', slug = ''foo'', description = [], authorName = None,
      authorEmail = None, authorUrl = None, repoUrl = None, language = Typescript,
      bundler = Vite, packageManager = Npm\<rparr>"

definition sample_target :: path where
  "sample_target = \<lparr>segs = [''w'', ''foo''], trailing = False\<rparr>"

definition sample_fs :: filesystem where
  "sample_fs = [[''w''] \<mapsto> Dir, [''w'', ''foo''] \<mapsto> Dir]"

definition common_entries :: "(string \<times> template) list" where
  "common_entries =
     [(''README.md'', TFile ''# Common {{%=PACKAGE_NAME%}}''),
      (''LICENSE'', TFile ''MIT'')]"

definition specific_entries :: "(string \<times> template) list" where
  "specific_entries =
     [(''README.md'', TFile ''# TS {{%=PACKAGE_NAME%}}''),
      (''$.gitignore'', TFile ''node_modules''),
      (''src'', TDir [(''index.ts'', TFile ''// {{%=PACKAGE_NAME%}}'')])]"

definition sample_common :: template where
  "sample_common = TDir common_entries"

definition sample_specific :: template where
  "sample_specific = TDir specific_entries"

definition sample_catalog :: catalog where
  "sample_catalog name =
     (if name = ''common'' then Some sample_common
      else if name = ''typescript-vite'' then Some sample_specific else None)"

definition sample_world :: world where
  "sample_world = \<lparr>files = Map.empty, calls = [], console = []\<rparr>"

definition git_missing :: runner where
  "git_missing w call = (if command call = ''git'' then SpawnError ''ENOENT'' else Closed (Some 0))"

section \<open>Properties of project names\<close>

lemma match_here_plus_all:
  "match_here [(a, OneOrMore)] True s \<longleftrightarrow> s \<noteq> [] \<and> (\<forall>c \<in> set s. atom_matches a c)"
proof (induction s)
  case Nil
  show ?case by simp
next
  case (Cons c s)
  show ?case
  proof (cases s)
    case Nil
    then show ?thesis by simp
  next
    case (Cons d t)
    with Cons.IH show ?thesis by auto
  qed
qed

text \<open>
  C9. \<open>validateProjectName name\<close> is true exactly when \<open>name\<close> is not empty and none of
  its characters is one of \<^verbatim>\<open>< > : ; , ? " * | / \\<close>.
\<close>

theorem validateProjectName_iff:
  "validateProjectName name \<longleftrightarrow>
     name \<noteq> [] \<and> (\<forall>c \<in> set name. c \<notin> set forbidden_chars)"
  by (simp add: validateProjectName_def regex_test_def project_name_regex_def
      match_here_plus_all)

theorem validateProjectName_iff_witness:
  "validateProjectName ''my-react-app'' \<and> \<not> validateProjectName ''a/b''
   \<and> \<not> validateProjectName ''''"
  using validateProjectName_iff [of "''my-react-app''"] validateProjectName_iff [of "''a/b''"]
    validateProjectName_iff [of "''''"]
  by (simp add: forbidden_chars_def)

section \<open>Properties of the commands and of the create command\<close>

lemma runCommand_effect:
  assumes "runCommand isWin run cmd as dir io w = (r, w')"
  shows "w' = w\<lparr>calls := calls w @ [spawn_of isWin cmd as dir io]\<rparr>"
    and "r = Inr () \<longleftrightarrow> run w (spawn_of isWin cmd as dir io) = Closed (Some 0)"
  using assms
  by (auto simp: runCommand_def spawn_of_def Let_def
      split: prod.splits child_result.splits if_splits)

lemma installDependencies_effect:
  assumes "installDependencies isWin run (targetPath options)
             (package_manager_name (packageManager options)) w = (r, w')"
  shows "w' = w\<lparr>calls := calls w @ [install_call isWin options]\<rparr>"
    and "r = Inr () \<longleftrightarrow> run w (install_call isWin options) = Closed (Some 0)"
proof -
  have cmd: "(if pm = ''yarn'' then ''yarn'' else if pm = ''pnpm'' then ''pnpm''
                 else if pm = ''bun'' then ''bun'' else ''npm'') = pm"
    if "pm = package_manager_name (packageManager options)" for pm
    using that by (cases "packageManager options") simp_all
  from assms have rc: "runCommand isWin run (package_manager_name (packageManager options))
      [''install''] (Some (targetPath options)) None w = (r, w')"
    by (simp add: installDependencies_def cmd)
  show "w' = w\<lparr>calls := calls w @ [install_call isWin options]\<rparr>"
    using runCommand_effect(1) [OF rc] by (simp add: install_call_def)
  show "r = Inr () \<longleftrightarrow> run w (install_call isWin options) = Closed (Some 0)"
    using runCommand_effect(2) [OF rc] by (simp add: install_call_def)
qed

lemma initializeGit_effect:
  assumes "initializeGit isWin run target w = (r, w')"
  shows "r = Inr ()"
    and "files w' = files w"
    and "\<exists>gits. calls w' = calls w @ gits \<and> prefix gits (git_calls isWin target)"
    and "console w' = console w \<or> console w' = console w @ [git_warning]"
proof -
  show "r = Inr ()"
    using assms unfolding initializeGit_def
    by (auto simp: caught_def split: prod.splits sum.splits)
  show "files w' = files w"
    using assms unfolding initializeGit_def
    by (auto simp: caught_def split: prod.splits sum.splits dest!: runCommand_effect(1))
  show "console w' = console w \<or> console w' = console w @ [git_warning]"
    using assms unfolding initializeGit_def
    by (auto simp: caught_def split: prod.splits sum.splits dest!: runCommand_effect(1))
  show "\<exists>gits. calls w' = calls w @ gits \<and> prefix gits (git_calls isWin target)"
    using assms unfolding initializeGit_def
    by (auto simp: caught_def git_calls_def split: prod.splits sum.splits
        dest!: runCommand_effect(1))
qed

text \<open>
  C10. \<open>initializeGit\<close> always returns normally, whatever the three git commands do; a
  failure only adds the warning to the console. So whether \<open>create\<close> succeeds depends on
  the generation of the project and on the installation of the dependencies alone.
\<close>

theorem initializeGit_not_critical:
  "fst (initializeGit isWin run target w) = Inr ()
   \<and> (console (snd (initializeGit isWin run target w)) = console w
        \<or> console (snd (initializeGit isWin run target w)) = console w @ [git_warning])
   \<and> (fst (create isWin run E templates options w) = Succeeded \<longleftrightarrow>
        fst (generateProject E templates options (files w)) = None
        \<and> run (w\<lparr>files := snd (generateProject E templates options (files w))\<rparr>)
              (install_call isWin options) = Closed (Some 0))"
proof (intro conjI)
  obtain r w' where g: "initializeGit isWin run target w = (r, w')"
    by fastforce
  show "fst (initializeGit isWin run target w) = Inr ()"
    using initializeGit_effect(1) [OF g] g by simp
  show "console (snd (initializeGit isWin run target w)) = console w
        \<or> console (snd (initializeGit isWin run target w)) = console w @ [git_warning]"
    using initializeGit_effect(4) [OF g] g by simp
  obtain e fs1 where gen: "generateProject E templates options (files w) = (e, fs1)"
    by fastforce
  obtain ri w1 where inst: "installDependencies isWin run (targetPath options)
      (package_manager_name (packageManager options)) (w\<lparr>files := fs1\<rparr>) = (ri, w1)"
    by fastforce
  obtain rg w2 where git: "initializeGit isWin run (targetPath options) w1 = (rg, w2)"
    by fastforce
  have rg: "rg = Inr ()"
    by (rule initializeGit_effect(1) [OF git])
  have ri: "ri = Inr () \<longleftrightarrow> run (w\<lparr>files := fs1\<rparr>) (install_call isWin options) = Closed (Some 0)"
    by (rule installDependencies_effect(2) [OF inst])
  show "fst (create isWin run E templates options w) = Succeeded \<longleftrightarrow>
        fst (generateProject E templates options (files w)) = None
        \<and> run (w\<lparr>files := snd (generateProject E templates options (files w))\<rparr>)
              (install_call isWin options) = Closed (Some 0)"
  proof (cases e)
    case (Some err)
    with gen show ?thesis by (simp add: create_def)
  next
    case None
    show ?thesis
    proof (cases ri)
      case (Inl err)
      with None gen inst ri show ?thesis by (auto simp add: create_def)
    next
      case (Inr u)
      with None gen inst git rg ri show ?thesis by (auto simp add: create_def)
    qed
  qed
qed

theorem initializeGit_not_critical_witness:
  "fst (initializeGit False git_missing ''/w/foo'' sample_world) = Inr ()
   \<and> console (snd (initializeGit False git_missing ''/w/foo'' sample_world)) = [git_warning]
   \<and> fst (create False git_missing no_engine sample_catalog sample_options sample_world)
       = Succeeded"
proof -
  have a: "console (snd (initializeGit False git_missing ''/w/foo'' sample_world))
             = [git_warning]"
    by code_simp
  have b: "fst (generateProject no_engine sample_catalog sample_options (files sample_world))
             = None"
    by code_simp
  have c: "git_missing w (install_call False sample_options) = Closed (Some 0)" for w
    by (simp add: git_missing_def install_call_def spawn_of_def buildCommand_def
        sample_options_def)
  show ?thesis
    using initializeGit_not_critical [of False git_missing "''/w/foo''" sample_world
        no_engine sample_catalog sample_options] a b c
    by simp
qed

text \<open>
  C8. The steps of \<open>create\<close> run one after the other. When the generation of the project
  fails, no command is spawned at all. Otherwise the installation is the first command
  spawned, in the state that the generation has left, the git commands follow it in their
  order, and none of them is spawned unless the installation has closed with status 0.
\<close>

theorem create_steps_in_order:
  assumes "create isWin run E templates options w = (r, w')"
  shows "case generateProject E templates options (files w) of
           (Some err, fs1) \<Rightarrow> r = Exit1 (Thrown err) \<and> calls w' = calls w \<and> files w' = fs1
         | (None, fs1) \<Rightarrow>
             files w' = fs1
             \<and> (\<exists>gits. calls w' = calls w @ install_call isWin options # gits
                  \<and> prefix gits (git_calls isWin (targetPath options))
                  \<and> (run (w\<lparr>files := fs1\<rparr>) (install_call isWin options) \<noteq> Closed (Some 0)
                       \<longrightarrow> gits = [] \<and> r \<noteq> Succeeded))"
proof -
  obtain e fs1 where gen: "generateProject E templates options (files w) = (e, fs1)"
    by fastforce
  obtain ri w1 where inst: "installDependencies isWin run (targetPath options)
      (package_manager_name (packageManager options)) (w\<lparr>files := fs1\<rparr>) = (ri, w1)"
    by fastforce
  obtain rg w2 where git: "initializeGit isWin run (targetPath options) w1 = (rg, w2)"
    by fastforce
  note i1 = installDependencies_effect(1) [OF inst]
  note i2 = installDependencies_effect(2) [OF inst]
  note g = initializeGit_effect [OF git]
  show ?thesis
  proof (cases e)
    case (Some err)
    with gen assms show ?thesis by (auto simp add: create_def)
  next
    case None
    show ?thesis
    proof (cases ri)
      case (Inl err)
      with None gen inst assms i1 i2 show ?thesis by (auto simp add: create_def)
    next
      case (Inr u)
      with None gen inst git assms g(1) have "r = Succeeded" "w' = w2"
        by (auto simp add: create_def)
      moreover from Inr i2
      have "run (w\<lparr>files := fs1\<rparr>) (install_call isWin options) = Closed (Some 0)"
        by simp
      ultimately show ?thesis
        using None gen g(2) g(3) i1 by auto
    qed
  qed
qed

theorem create_steps_in_order_witness:
  "fst (generateProject no_engine sample_catalog sample_options (files sample_world)) = None
   \<and> (\<exists>gits. calls (snd (create False git_missing no_engine sample_catalog sample_options
                 sample_world)) = install_call False sample_options # gits
          \<and> prefix gits (git_calls False ''/w/foo''))"
proof -
  have g: "fst (generateProject no_engine sample_catalog sample_options (files sample_world))
             = None"
    by code_simp
  have c: "calls sample_world = []" "targetPath sample_options = ''/w/foo''"
    by (simp_all add: sample_world_def sample_options_def)
  show ?thesis
    using create_steps_in_order [OF surjective_pairing, of False git_missing no_engine
        sample_catalog sample_options sample_world] g c
    by (auto split: prod.splits option.splits)
qed

section \<open>Properties of the template engine\<close>

lemma prefix_sublist_left: "prefix (xs @ ys) s \<Longrightarrow> sublist xs s"
  unfolding prefix_def sublist_def by (metis append.assoc append_Nil)

lemma prefix_sublist_right: "prefix (xs @ ys) s \<Longrightarrow> sublist ys s"
  unfolding prefix_def sublist_def by (metis append.assoc)

lemma sublist_suffix: "sublist xs t \<Longrightarrow> suffix t s \<Longrightarrow> sublist xs s"
  unfolding sublist_def suffix_def by (metis append.assoc)

lemma scan_tokens_plain:
  assumes "\<And>t. suffix t s \<Longrightarrow> find_tag tags t = None"
  shows "scan_tokens tags 0 acc s = flush (rev s @ acc)"
  using assms
proof (induction s arbitrary: acc)
  case Nil
  show ?case by simp
next
  case (Cons ch s)
  have "find_tag tags (ch # s) = None"
    by (rule Cons.prems) simp
  moreover have "scan_tokens tags 0 (ch # acc) s = flush (rev s @ ch # acc)"
    by (rule Cons.IH) (simp add: Cons.prems suffix_ConsI)
  ultimately show ?case by simp
qed

lemma find_tag_default:
  assumes "find_tag (tag_tokens default_delimiters) s = Some t"
  shows "sublist ''<%'' s \<or> sublist ''%>'' s"
proof -
  have tags: "tag_tokens default_delimiters =
      [''<%'' @ ''%'', ''%'' @ ''%>'', ''<%'' @ ''='', ''<%'' @ ''-'', ''<%'' @ ''_'',
       ''<%'' @ ''#'', ''<%'' @ [], [] @ ''%>'', ''-'' @ ''%>'', ''_'' @ ''%>'']"
    by (simp add: tag_tokens_def default_delimiters_def Let_def)
  show ?thesis
    using assms unfolding tags find_tag.simps
    by (auto split: if_splits dest: prefix_sublist_left prefix_sublist_right
        simp del: append.simps)
qed


lemma not_sublist_longer: "\<not> sublist xs s \<Longrightarrow> sublist xs ys \<Longrightarrow> \<not> sublist ys s"
  using sublist_order.order_trans by blast

lemma ejs_render_plain:
  assumes "\<not> sublist ''<%'' s" and "\<not> sublist ''%>'' s"
  shows "ejs_render E s data default_delimiters = Inr s"
proof -
  have none: "find_tag (tag_tokens default_delimiters) t = None" if "suffix t s" for t
  proof (cases "find_tag (tag_tokens default_delimiters) t")
    case None
    then show ?thesis .
  next
    case (Some u)
    from find_tag_default [OF Some] that assms show ?thesis
      by (blast dest: sublist_suffix)
  qed
  have toks: "parseTemplateText default_delimiters s = (if s = [] then [] else [s])"
    unfolding parseTemplateText_def
    by (simp add: scan_tokens_plain [OF none] flush_def)
  have "sublist ''<%'' (''<%'' @ ''_'')"
    by (rule prefix_sublist_left [of _ "''_''"]) simp
  then have slurp1: "\<not> sublist ''<%_'' s"
    using not_sublist_longer [OF assms(1)] by simp
  have "sublist ''%>'' (''_'' @ ''%>'')"
    by (rule prefix_sublist_right [of "''_''"]) simp
  then have slurp2: "\<not> sublist ''_%>'' s"
    using not_sublist_longer [OF assms(2)] by simp
  have slurp: "\<not> has_slurp_tag default_delimiters s"
    using slurp1 slurp2 by (simp add: has_slurp_tag_def default_delimiters_def)
  show ?thesis
  proof (cases "s = []")
    case True
    with toks slurp show ?thesis
      by (simp add: ejs_render_def)
  next
    case False
    have p1: "\<not> prefix ''<%'' s"
      using assms(1) prefix_imp_sublist by blast
    have p2: "\<not> suffix ''%>'' s"
      using assms(2) suffix_imp_sublist by blast
    have ne1: "s \<noteq> ''<%''" "s \<noteq> ''<%_''" "s \<noteq> ''<%=''" "s \<noteq> ''<%-''" "s \<noteq> ''<%#''"
      "s \<noteq> ''<%%''"
      using p1 by fastforce+
    have ne2: "s \<noteq> ''%%>''" "s \<noteq> ''%>''" "s \<noteq> ''-%>''" "s \<noteq> ''_%>''"
      using p2 by (fastforce simp: suffix_def)+
    have chk: "check_tags default_delimiters [s] = None"
      using p1 by (simp add: is_open_tag_def default_delimiters_def)
    have scan: "scanLines default_delimiters None False [s] = [Append s]"
      using ne1 ne2 False by (simp add: default_delimiters_def addOutput_def Let_def)
    from False toks slurp chk scan show ?thesis
      by (simp add: ejs_render_def)
  qed
qed

text \<open>
  C4. A template entry named \<^verbatim>\<open>$foo\<close>, where \<open>foo\<close> contains no tag delimiter of the
  template engine (neither \<^verbatim>\<open><%\<close> nor \<^verbatim>\<open>%>\<close>), gets the destination name \<open>foo\<close>:
  the leading sentinel is removed and the rest is kept as it is. In particular
  \<^verbatim>\<open>$.github\<close> becomes \<^verbatim>\<open>.github\<close>.
\<close>

theorem renderFileName_sentinel:
  assumes "\<not> sublist ''<%'' foo" and "\<not> sublist ''%>'' foo"
  shows "renderFileName E (CHR ''$'' # foo) options = Inr foo"
  by (simp add: renderFileName_def ejs_render_plain [OF assms])

theorem renderFileName_sentinel_witness:
  "\<not> sublist ''<%'' ''.github'' \<and> \<not> sublist ''%>'' ''.github''
   \<and> renderFileName no_engine ''$.github'' sample_options = Inr ''.github''"
proof -
  have a: "\<not> sublist ''<%'' ''.github''" and b: "\<not> sublist ''%>'' ''.github''"
    by (simp_all add: sublist_Cons_right)
  show ?thesis
    using renderFileName_sentinel [OF a b, of no_engine sample_options] a b by simp
qed

lemma tags_template: "tag_tokens template_delimiters =
   [''{{%%'', ''%%}}'', ''{{%='', ''{{%-'', ''{{%_'', ''{{%#'', ''{{%'', ''%}}'', ''-%}}'', ''_%}}'']"
  by (simp add: tag_tokens_def template_delimiters_def Let_def)

lemma renderTemplate_tokens:
  assumes "\<not> has_slurp_tag template_delimiters t"
    and "scan_tokens [''{{%%'', ''%%}}'', ''{{%='', ''{{%-'', ''{{%_'', ''{{%#'', ''{{%'', ''%}}'',
           ''-%}}'', ''_%}}''] 0 [] t = toks"
    and "check_tags template_delimiters toks = None"
    and "run_instrs (template_data options) (scanLines template_delimiters None False toks)
           = Some out"
  shows "renderTemplate E t options = Inr out"
  using assms
  by (simp add: renderTemplate_def ejs_render_def parseTemplateText_def tags_template)

lemmas token_eval = flush_def has_slurp_tag_def sublist_Cons_right is_open_tag_def is_close_tag_def
  template_delimiters_def Let_def template_data_def trim_def is_space_def escapeXML_def
  append_raw_def

lemma render_PACKAGE_NAME:
  "renderTemplate E ''{{%=PACKAGE_NAME%}}'' options = Inr (escape_markup (slug options))"
  by (rule renderTemplate_tokens [where toks = "[''{{%='', ''PACKAGE_NAME'', ''%}}'']"])
     (simp_all add: token_eval)

lemma render_DESCRIPTION:
  "renderTemplate E ''{{%=DESCRIPTION%}}'' options = Inr (escape_markup (description options))"
  by (rule renderTemplate_tokens [where toks = "[''{{%='', ''DESCRIPTION'', ''%}}'']"])
     (simp_all add: token_eval)

lemma render_AUTHOR_NAME:
  "renderTemplate E ''{{%=AUTHOR_NAME%}}'' options
     = Inr (escape_markup (or_empty (authorName options)))"
  by (rule renderTemplate_tokens [where toks = "[''{{%='', ''AUTHOR_NAME'', ''%}}'']"])
     (simp_all add: token_eval)

lemma render_AUTHOR_EMAIL:
  "renderTemplate E ''{{%=AUTHOR_EMAIL%}}'' options
     = Inr (escape_markup (or_empty (authorEmail options)))"
  by (rule renderTemplate_tokens [where toks = "[''{{%='', ''AUTHOR_EMAIL'', ''%}}'']"])
     (simp_all add: token_eval)

lemma render_AUTHOR_URL:
  "renderTemplate E ''{{%=AUTHOR_URL%}}'' options
     = Inr (escape_markup (or_empty (authorUrl options)))"
  by (rule renderTemplate_tokens [where toks = "[''{{%='', ''AUTHOR_URL'', ''%}}'']"])
     (simp_all add: token_eval)

lemma render_REPO_URL:
  "renderTemplate E ''{{%=REPO_URL%}}'' options
     = Inr (escape_markup (or_empty (repoUrl options)))"
  by (rule renderTemplate_tokens [where toks = "[''{{%='', ''REPO_URL'', ''%}}'']"])
     (simp_all add: token_eval)

lemma escape_markup_plain:
  "\<forall>c \<in> set s. c \<notin> set html_chars \<Longrightarrow> escape_markup s = s"
  by (induction s) (auto simp: escape_markup_def encode_char_def html_chars_def)

lemma escape_markup_empty: "escape_markup [] = []"
  by (simp add: escape_markup_def)

text \<open>
  C2, as the claim states it, fails: the package-name placeholder is an escaped output
  tag, so a slug with one of the characters \<^verbatim>\<open>& < > " '\<close> is not rendered verbatim.
  The slug \<^verbatim>\<open>a&b\<close> is a valid project name and renders as \<^verbatim>\<open>a&amp;b\<close>.
\<close>

theorem renderTemplate_slug_counterexample:
  "validateProjectName ''a&b''
   \<and> renderTemplate no_engine ''{{%=PACKAGE_NAME%}}'' (sample_options\<lparr>slug := ''a&b''\<rparr>)
       = Inr ''a&amp;b''"
  by code_simp

text \<open>
  C2, amended. The package-name placeholder renders as the slug with each of
  \<^verbatim>\<open>& < > " '\<close> replaced by its HTML entity, hence as the slug itself when the slug has
  none of these characters. The description placeholder renders as the empty string
  when the description is empty, and the placeholder of an unset optional field (author
  name, email, URL, repository URL) renders as the empty string.
\<close>

theorem renderTemplate_placeholders:
  "renderTemplate E ''{{%=PACKAGE_NAME%}}'' options = Inr (escape_markup (slug options))
   \<and> ((\<forall>c \<in> set (slug options). c \<notin> set html_chars) \<longrightarrow>
        renderTemplate E ''{{%=PACKAGE_NAME%}}'' options = Inr (slug options))
   \<and> (description options = [] \<longrightarrow> renderTemplate E ''{{%=DESCRIPTION%}}'' options = Inr [])
   \<and> (authorName options = None \<longrightarrow> renderTemplate E ''{{%=AUTHOR_NAME%}}'' options = Inr [])
   \<and> (authorEmail options = None \<longrightarrow> renderTemplate E ''{{%=AUTHOR_EMAIL%}}'' options = Inr [])
   \<and> (authorUrl options = None \<longrightarrow> renderTemplate E ''{{%=AUTHOR_URL%}}'' options = Inr [])
   \<and> (repoUrl options = None \<longrightarrow> renderTemplate E ''{{%=REPO_URL%}}'' options = Inr [])"
  by (simp add: render_PACKAGE_NAME render_DESCRIPTION render_AUTHOR_NAME render_AUTHOR_EMAIL
      render_AUTHOR_URL render_REPO_URL escape_markup_plain escape_markup_empty)

theorem renderTemplate_placeholders_witness:
  "renderTemplate no_engine ''{{%=PACKAGE_NAME%}}'' sample_options = Inr ''foo''
   \<and> renderTemplate no_engine ''{{%=DESCRIPTION%}}'' sample_options = Inr []
   \<and> renderTemplate no_engine ''{{%=AUTHOR_NAME%}}'' sample_options = Inr []
   \<and> renderTemplate no_engine ''{{%=AUTHOR_EMAIL%}}'' sample_options = Inr []
   \<and> renderTemplate no_engine ''{{%=AUTHOR_URL%}}'' sample_options = Inr []
   \<and> renderTemplate no_engine ''{{%=REPO_URL%}}'' sample_options = Inr []"
proof -
  have "\<forall>c \<in> set (slug sample_options). c \<notin> set html_chars"
    and "slug sample_options = ''foo''"
    and "description sample_options = []"
    and "authorName sample_options = None" and "authorEmail sample_options = None"
    and "authorUrl sample_options = None" and "repoUrl sample_options = None"
    by (simp_all add: sample_options_def html_chars_def)
  with renderTemplate_placeholders [of no_engine sample_options] show ?thesis
    by metis
qed

section \<open>Properties of paths, of the file system and of a pass\<close>

lemma split_sep_plain: "CHR ''/'' \<notin> set name \<Longrightarrow> split_sep acc name = [rev acc @ name]"
  by (induction name arbitrary: acc) auto

lemma normalize_segs_plain: "list_all plain xs \<Longrightarrow> normalize_segs res xs = res @ xs"
  by (induction xs arbitrary: res) (auto simp: plain_def)

lemma path_join_plain:
  assumes "list_all plain (segs target)" and "plain name"
  shows "segs (path_join target name) = segs target @ [name]"
proof -
  from assms(2) have "split_sep [] name = [name]" and "name \<noteq> []"
    by (simp_all add: plain_def split_sep_plain)
  with assms show ?thesis
    by (simp add: path_join_def normalize_segs_plain)
qed

lemma foldl_path_join_plain:
  assumes "list_all plain (segs target)" and "list_all plain names"
  shows "segs (foldl path_join target names) = segs target @ names"
  using assms
proof (induction names arbitrary: target)
  case Nil
  show ?case by simp
next
  case (Cons n names)
  from Cons.prems have j: "segs (path_join target n) = segs target @ [n]"
    by (simp add: path_join_plain)
  with Cons.prems have "list_all plain (segs (path_join target n))"
    by simp
  from Cons.IH [OF this] Cons.prems j show ?case by simp
qed

lemma dest_writes_rendered_files:
  "dest_writes E options entries target
     = map (\<lambda>(names, out). (segs (foldl path_join target names), out))
         (rendered_files E options entries)"
  by (induction E options entries target rule: dest_writes.induct)
     (auto split: sum.splits)

lemma make_dirs_keeps: "fs D \<noteq> None \<Longrightarrow> make_dirs ds fs D = fs D"
  by (induction ds arbitrary: fs) (auto simp: node_at_def)

lemma mkdirSync_keeps:
  assumes "mkdirSync p fs = Inr fs1" and "fs D \<noteq> None"
  shows "fs1 D = fs D"
  using assms by (auto simp: mkdirSync_def make_dirs_keeps split: if_splits)

lemma writeFileSync_result:
  assumes "writeFileSync p content fs = Inr fs1"
  shows "fs1 = fs(segs p \<mapsto> File content)"
  using assms by (auto simp: writeFileSync_def split: if_splits)

lemma copy_entries_file:
  "copy_entries E ((name, TFile content) # entries) target options fs = (None, fs') \<longleftrightarrow>
     (\<exists>destName out fs1.
        renderFileName E name options = Inr destName
        \<and> renderTemplate E content options = Inr out
        \<and> writeFileSync (path_join target destName) out fs = Inr fs1
        \<and> copy_entries E entries target options fs1 = (None, fs'))"
  by (simp add: Let_def split: sum.splits)

lemma copy_entries_dir:
  "copy_entries E ((name, TDir children) # entries) target options fs = (None, fs') \<longleftrightarrow>
     (\<exists>destName fs1 fs2.
        renderFileName E name options = Inr destName
        \<and> mkdirSync (path_join target destName) fs = Inr fs1
        \<and> copy_entries E children (path_join target destName) options fs1 = (None, fs2)
        \<and> copy_entries E entries target options fs2 = (None, fs'))"
  by (auto simp add: Let_def split: sum.splits prod.splits option.splits)


lemma copy_entries_frame:
  assumes "copy_entries E entries target options fs = (None, fs')"
    and "fs D = Some (File c)"
    and "D \<notin> fst ` set (dest_writes E options entries target)"
  shows "fs' D = Some (File c)"
  using assms
proof (induction E options entries target arbitrary: fs fs' rule: dest_writes.induct)
  case (1 E options target)
  then show ?case by simp
next
  case (2 E options name content entries target)
  from "2.prems"(1) obtain destName out fs1 where
    n: "renderFileName E name options = Inr destName"
    and r: "renderTemplate E content options = Inr out"
    and w: "writeFileSync (path_join target destName) out fs = Inr fs1"
    and rest: "copy_entries E entries target options fs1 = (None, fs')"
    unfolding copy_entries_file by blast
  from "2.prems"(3) n r have ne: "D \<noteq> segs (path_join target destName)"
    and notin: "D \<notin> fst ` set (dest_writes E options entries target)"
    by auto
  from writeFileSync_result [OF w] ne "2.prems"(2) have "fs1 D = Some (File c)"
    by simp
  from "2.IH" [OF rest this notin] show ?case .
next
  case (3 E options name children entries target)
  from "3.prems"(1) obtain destName fs1 fs2 where
    n: "renderFileName E name options = Inr destName"
    and m: "mkdirSync (path_join target destName) fs = Inr fs1"
    and sub: "copy_entries E children (path_join target destName) options fs1 = (None, fs2)"
    and rest: "copy_entries E entries target options fs2 = (None, fs')"
    unfolding copy_entries_dir by blast
  from "3.prems"(3) n
  have notin1: "D \<notin> fst ` set (dest_writes E options children (path_join target destName))"
    and notin2: "D \<notin> fst ` set (dest_writes E options entries target)"
    by auto
  from mkdirSync_keeps [OF m, of D] "3.prems"(2) have "fs1 D = Some (File c)"
    by simp
  from "3.IH"(1) [OF n sub this notin1] have "fs2 D = Some (File c)" .
  from "3.IH"(2) [OF rest this notin2] show ?case .
qed

lemma last_write_append:
  "last_write (xs @ ys) D = (case last_write ys D of Some c \<Rightarrow> Some c | None \<Rightarrow> last_write xs D)"
  by (simp add: last_write_def map_add_def [symmetric] map_of_append)
     (simp add: map_add_def)

lemma last_write_None: "last_write ws D = None \<longleftrightarrow> D \<notin> fst ` set ws"
  by (simp add: last_write_def map_of_eq_None_iff)

lemma copy_entries_last_write:
  assumes "copy_entries E entries target options fs = (None, fs')"
    and "last_write (dest_writes E options entries target) D = Some c"
  shows "fs' D = Some (File c)"
  using assms
proof (induction E options entries target arbitrary: fs fs' rule: dest_writes.induct)
  case (1 E options target)
  then show ?case by (simp add: last_write_def)
next
  case (2 E options name content entries target)
  from "2.prems"(1) obtain destName out fs1 where
    n: "renderFileName E name options = Inr destName"
    and r: "renderTemplate E content options = Inr out"
    and w: "writeFileSync (path_join target destName) out fs = Inr fs1"
    and rest: "copy_entries E entries target options fs1 = (None, fs')"
    unfolding copy_entries_file by blast
  show ?case
  proof (cases "last_write (dest_writes E options entries target) D")
    case (Some c')
    with "2.prems"(2) have "c' = c"
      by (simp add: last_write_append)
    with "2.IH" [OF rest] Some show ?thesis by simp
  next
    case None
    with "2.prems"(2) n r have D: "D = segs (path_join target destName)" and c: "c = out"
      by (auto simp: last_write_append last_write_def split: if_splits)
    from writeFileSync_result [OF w] D c have "fs1 D = Some (File c)"
      by simp
    moreover from None have "D \<notin> fst ` set (dest_writes E options entries target)"
      by (simp add: last_write_None)
    ultimately show ?thesis
      using copy_entries_frame [OF rest] by blast
  qed
next
  case (3 E options name children entries target)
  from "3.prems"(1) obtain destName fs1 fs2 where
    n: "renderFileName E name options = Inr destName"
    and m: "mkdirSync (path_join target destName) fs = Inr fs1"
    and sub: "copy_entries E children (path_join target destName) options fs1 = (None, fs2)"
    and rest: "copy_entries E entries target options fs2 = (None, fs')"
    unfolding copy_entries_dir by blast
  show ?case
  proof (cases "last_write (dest_writes E options entries target) D")
    case (Some c')
    with "3.prems"(2) have "c' = c"
      by (simp add: last_write_append)
    with "3.IH"(2) [OF rest] Some show ?thesis by simp
  next
    case None
    with "3.prems"(2) n
    have "last_write (dest_writes E options children (path_join target destName)) D = Some c"
      by (simp add: last_write_append)
    from "3.IH"(1) [OF n sub this] have "fs2 D = Some (File c)" .
    moreover from None have "D \<notin> fst ` set (dest_writes E options entries target)"
      by (simp add: last_write_None)
    ultimately show ?thesis
      using copy_entries_frame [OF rest] by blast
  qed
qed

section \<open>Properties of copyTemplate\<close>

text \<open>
  C7. When the sibling \<^verbatim>\<open>common\<close> root does not exist, \<open>copyTemplate\<close> raises no error
  for it and does exactly what the pass over the specific root does.
\<close>

theorem copyTemplate_without_common:
  "copyTemplate E None specific target options fs
     = copyTemplateFiles E specific target options fs"
  by (simp add: copyTemplate_def existsSync_def)

theorem copyTemplate_without_common_witness:
  "fst (copyTemplate no_engine None (Some sample_specific) sample_target sample_options sample_fs)
     = None
   \<and> snd (copyTemplate no_engine None (Some sample_specific) sample_target sample_options
        sample_fs) [''w'', ''foo'', ''README.md''] = Some (File ''# TS foo'')"
proof -
  have "fst (copyTemplateFiles no_engine (Some sample_specific) sample_target sample_options
          sample_fs) = None"
    by code_simp
  moreover have "snd (copyTemplateFiles no_engine (Some sample_specific) sample_target
      sample_options sample_fs) [''w'', ''foo'', ''README.md''] = Some (File ''# TS foo'')"
    by code_simp
  ultimately show ?thesis
    using copyTemplate_without_common [of no_engine "Some sample_specific" sample_target
        sample_options sample_fs]
    by simp
qed

text \<open>
  C3, as the claim states it, fails: with a \<^verbatim>\<open>common\<close> tree and no specific root,
  \<open>copyTemplate\<close> ends with \<open>SourceNotFound\<close> after the common pass has written its
  files (here \<^verbatim>\<open>LICENSE\<close>, which the destination did not have).
\<close>

theorem copyTemplate_missing_specific_counterexample:
  "fst (copyTemplate no_engine (Some sample_common) None sample_target sample_options sample_fs)
     = Some SourceNotFound
   \<and> sample_fs [''w'', ''foo'', ''LICENSE''] = None
   \<and> snd (copyTemplate no_engine (Some sample_common) None sample_target sample_options
        sample_fs) [''w'', ''foo'', ''LICENSE''] = Some (File ''MIT'')"
  by code_simp

text \<open>
  C3, amended. When the specific root does not exist, \<open>copyTemplate\<close> never succeeds.
  Without a \<^verbatim>\<open>common\<close> tree it fails with \<open>SourceNotFound\<close> and the destination is
  unchanged. With a \<^verbatim>\<open>common\<close> tree the common pass runs first: its own error is
  reported if it fails, and otherwise \<open>copyTemplate\<close> fails with \<open>SourceNotFound\<close> in
  the destination that the whole common pass has produced.
\<close>

theorem copyTemplate_missing_specific:
  "copyTemplate E common None target options fs =
     (case common of
        None \<Rightarrow> (Some SourceNotFound, fs)
      | Some t \<Rightarrow>
          (case copyTemplateFiles E (Some t) target options fs of
             (Some err, fs1) \<Rightarrow> (Some err, fs1)
           | (None, fs1) \<Rightarrow> (Some SourceNotFound, fs1)))"
  by (simp add: copyTemplate_def existsSync_def split: option.splits prod.splits)

theorem copyTemplate_missing_specific_witness:
  "copyTemplate no_engine None None sample_target sample_options sample_fs
     = (Some SourceNotFound, sample_fs)"
  using copyTemplate_missing_specific [of no_engine None sample_target sample_options sample_fs]
  by simp

lemma copyTemplate_passes:
  "copyTemplate E (Some (TDir common)) (Some (TDir specific)) target options fs = (None, fs')
     \<longleftrightarrow> (\<exists>fs1. copy_entries E common target options fs = (None, fs1)
               \<and> copy_entries E specific target options fs1 = (None, fs'))"
  by (auto simp: copyTemplate_def existsSync_def split: prod.splits option.splits)

text \<open>
  C1. \<open>copyTemplate\<close> runs the pass over the common tree to its end and then the pass
  over the specific tree. When it completes, a destination path to which both trees
  bring a file holds the rendered content of the file of the specific tree (of the last
  one in copy order, should several entries of the specific tree fall on that path):
  the last writer wins and nothing of the common file remains.
\<close>

theorem copyTemplate_specific_wins:
  assumes "copyTemplate E (Some (TDir common)) (Some (TDir specific)) target options fs
             = (None, fs')"
    and "D \<in> fst ` set (dest_writes E options common target)"
    and "last_write (dest_writes E options specific target) D = Some c"
  shows "(\<exists>fs1. copyTemplateFiles E (Some (TDir common)) target options fs = (None, fs1)
            \<and> copyTemplateFiles E (Some (TDir specific)) target options fs1 = (None, fs'))
         \<and> fs' D = Some (File c)"
proof -
  from assms(1) obtain fs1 where
    first: "copy_entries E common target options fs = (None, fs1)"
    and second: "copy_entries E specific target options fs1 = (None, fs')"
    unfolding copyTemplate_passes by blast
  from copy_entries_last_write [OF second assms(3)] have "fs' D = Some (File c)" .
  with first second show ?thesis by auto
qed

theorem copyTemplate_specific_wins_witness:
  "fst (copyTemplate no_engine (Some (TDir common_entries)) (Some (TDir specific_entries))
          sample_target sample_options sample_fs) = None
   \<and> [''w'', ''foo'', ''README.md'']
        \<in> fst ` set (dest_writes no_engine sample_options common_entries sample_target)
   \<and> last_write (dest_writes no_engine sample_options specific_entries sample_target)
        [''w'', ''foo'', ''README.md''] = Some ''# TS foo''
   \<and> snd (copyTemplate no_engine (Some (TDir common_entries)) (Some (TDir specific_entries))
          sample_target sample_options sample_fs) [''w'', ''foo'', ''README.md'']
        = Some (File ''# TS foo'')"
proof -
  have a: "fst (copyTemplate no_engine (Some (TDir common_entries)) (Some (TDir specific_entries))
          sample_target sample_options sample_fs) = None"
    by code_simp
  have b: "[''w'', ''foo'', ''README.md'']
        \<in> fst ` set (dest_writes no_engine sample_options common_entries sample_target)"
    by code_simp
  have c: "last_write (dest_writes no_engine sample_options specific_entries sample_target)
        [''w'', ''foo'', ''README.md''] = Some ''# TS foo''"
    by code_simp
  from a have a': "copyTemplate no_engine (Some (TDir common_entries))
      (Some (TDir specific_entries)) sample_target sample_options sample_fs
      = (None, snd (copyTemplate no_engine (Some (TDir common_entries))
          (Some (TDir specific_entries)) sample_target sample_options sample_fs))"
    by (simp add: prod_eq_iff)
  from copyTemplate_specific_wins [OF a' b c] a b c show ?thesis
    by blast
qed

section \<open>The structure of the destination\<close>

lemma make_dirs_keeps_node: "node_at fs D \<noteq> None \<Longrightarrow> node_at (make_dirs ds fs) D = node_at fs D"
  by (induction ds arbitrary: fs) (auto simp: node_at_def)

lemma make_dirs_made:
  "d \<in> set ds \<Longrightarrow> node_at (make_dirs ds fs) d \<noteq> None"
proof (induction ds arbitrary: fs)
  case Nil
  then show ?case by simp
next
  case (Cons a ds)
  show ?case
  proof (cases "d = a")
    case True
    have "node_at (if node_at fs a = None then fs(a \<mapsto> Dir) else fs) a \<noteq> None"
      by (auto simp: node_at_def)
    with True show ?thesis
      by (simp add: make_dirs_keeps_node)
  next
    case False
    with Cons show ?thesis by simp
  qed
qed

lemma make_dirs_id: "\<forall>d \<in> set ds. node_at fs d \<noteq> None \<Longrightarrow> make_dirs ds fs = fs"
  by (induction ds) auto

lemma make_dirs_files: "is_file (make_dirs ds fs) D = is_file fs D"
  by (induction ds arbitrary: fs) (auto simp: is_file_def node_at_def)

lemma mkdirSync_idempotent:
  assumes "mkdirSync p fs = Inr fs1"
  shows "mkdirSync p fs1 = Inr fs1"
proof -
  let ?ds = "proper_prefixes (segs p) @ [segs p]"
  from assms have nf: "\<not> list_ex (is_file fs) (proper_prefixes (segs p))"
    "\<not> is_file fs (segs p)" and fs1: "fs1 = make_dirs ?ds fs"
    by (auto simp: mkdirSync_def split: if_splits)
  from nf have "\<not> list_ex (is_file fs1) (proper_prefixes (segs p))" "\<not> is_file fs1 (segs p)"
    by (simp_all add: fs1 make_dirs_files list_ex_iff)
  moreover have "make_dirs ?ds fs1 = fs1"
    by (rule make_dirs_id) (simp add: fs1 make_dirs_made)
  ultimately show ?thesis
    by (simp add: mkdirSync_def)
qed

lemma proper_prefixes_neq: "q \<in> set (proper_prefixes xs) \<Longrightarrow> q \<noteq> xs"
  by (induction xs arbitrary: q) auto

lemma writeFileSync_again:
  assumes "writeFileSync p old fs = Inr fs1"
  shows "writeFileSync p new fs1 = Inr (fs1(segs p \<mapsto> File new))"
proof -
  from assms have fs1: "fs1 = fs(segs p \<mapsto> File old)"
    by (rule writeFileSync_result)
  from assms have c: "\<not> list_ex (is_file fs) (proper_prefixes (segs p))"
    "node_at fs (butlast (segs p)) \<noteq> None" "node_at fs (segs p) \<noteq> Some Dir" "\<not> trailing p"
    by (auto simp: writeFileSync_def split: if_splits)
  from c(3) have ne: "segs p \<noteq> []"
    by (auto simp: node_at_def)
  have "\<not> list_ex (is_file fs1) (proper_prefixes (segs p))"
    using c(1) proper_prefixes_neq [of _ "segs p"]
    by (auto simp: list_ex_iff fs1 is_file_def node_at_def)
  moreover have "node_at fs1 (butlast (segs p)) \<noteq> None"
    using c(2) by (auto simp: fs1 node_at_def)
  moreover have "node_at fs1 (segs p) \<noteq> Some Dir"
    using ne by (simp add: fs1 node_at_def)
  ultimately show ?thesis
    using c(4) by (simp add: writeFileSync_def)
qed

lemma in_rendered_files_dest:
  assumes "(names, out) \<in> set (rendered_files E options entries)"
  shows "segs (foldl path_join target names) \<in> fst ` set (dest_writes E options entries target)"
  using assms by (force simp: dest_writes_rendered_files)

lemma last_write_distinct:
  assumes "distinct (map fst ws)" and "(D, c) \<in> set ws"
  shows "last_write ws D = Some c"
  using assms by (simp add: last_write_def distinct_rev rev_map [symmetric])


lemma copy_entries_structure:
  assumes ok: "copy_entries E entries target options fs = (None, fs')"
    and mem: "(names, out) \<in> set (rendered_files E options entries)"
    and pt: "list_all plain (segs target)" and pn: "list_all plain names"
  shows "\<exists>c. last_write (dest_writes E options entries target) (segs target @ names) = Some c
             \<and> fs' (segs target @ names) = Some (File c)"
    and "distinct (map fst (dest_writes E options entries target)) \<Longrightarrow>
             fs' (segs target @ names) = Some (File out)"
proof -
  let ?ws = "dest_writes E options entries target"
  from pt pn have D: "segs (foldl path_join target names) = segs target @ names"
    by (rule foldl_path_join_plain)
  from in_rendered_files_dest [OF mem, of target] D
  have "segs target @ names \<in> fst ` set ?ws"
    by simp
  then obtain c where c: "last_write ?ws (segs target @ names) = Some c"
    using last_write_None [of ?ws "segs target @ names"] by fastforce
  from copy_entries_last_write [OF ok c] have at: "fs' (segs target @ names) = Some (File c)" .
  with c show "\<exists>c. last_write ?ws (segs target @ names) = Some c
      \<and> fs' (segs target @ names) = Some (File c)"
    by blast
  assume "distinct (map fst ?ws)"
  moreover from mem D have "(segs target @ names, out) \<in> set ?ws"
    by (force simp: dest_writes_rendered_files)
  ultimately have "last_write ?ws (segs target @ names) = Some out"
    by (rule last_write_distinct)
  with c at show "fs' (segs target @ names) = Some (File out)"
    by simp
qed

text \<open>
  C6. A pass keeps the structure of the tree. When \<open>copyTemplateFiles\<close> completes, a
  template file whose rendered relative path is \<open>names\<close> (plain names, under a
  normalised target) is a file of the destination at the target path followed by
  \<open>names\<close>, so at the same depth; its content is the rendered content of the last
  template file that lands there, which is the file itself when no two template files
  land on the same path. Creating a directory that exists is not an error and changes
  nothing, and writing a file that exists replaces its content.
\<close>

theorem copyTemplateFiles_structure:
  "(copyTemplateFiles E (Some (TDir entries)) target options fs = (None, fs') \<longrightarrow>
      (names, out) \<in> set (rendered_files E options entries) \<longrightarrow>
      list_all plain (segs target) \<longrightarrow> list_all plain names \<longrightarrow>
        (\<exists>c. last_write (dest_writes E options entries target) (segs target @ names) = Some c
             \<and> fs' (segs target @ names) = Some (File c))
        \<and> (distinct (map fst (dest_writes E options entries target)) \<longrightarrow>
             fs' (segs target @ names) = Some (File out)))
   \<and> (mkdirSync p fs = Inr fs1 \<longrightarrow> mkdirSync p fs1 = Inr fs1)
   \<and> (writeFileSync p old fs = Inr fs2 \<longrightarrow>
        writeFileSync p new fs2 = Inr (fs2(segs p \<mapsto> File new)))"
  using copy_entries_structure [of E entries target options fs fs' names out]
    mkdirSync_idempotent [of p fs fs1] writeFileSync_again [of p old fs fs2 new]
  by simp


theorem copyTemplateFiles_structure_witness:
  "fst (copyTemplateFiles no_engine (Some (TDir specific_entries)) sample_target sample_options
          sample_fs) = None
   \<and> ([''src'', ''index.ts''], ''// foo'')
        \<in> set (rendered_files no_engine sample_options specific_entries)
   \<and> list_all plain (segs sample_target) \<and> list_all plain [''src'', ''index.ts'']
   \<and> distinct (map fst (dest_writes no_engine sample_options specific_entries sample_target))
   \<and> snd (copyTemplateFiles no_engine (Some (TDir specific_entries)) sample_target
          sample_options sample_fs) [''w'', ''foo'', ''src'', ''index.ts'']
        = Some (File ''// foo'')
   \<and> (\<exists>fs1. mkdirSync (path_join sample_target ''src'') sample_fs = Inr fs1
          \<and> mkdirSync (path_join sample_target ''src'') fs1 = Inr fs1)
   \<and> (\<exists>fs2. writeFileSync (path_join sample_target ''src'') ''old'' sample_fs = Inr fs2
          \<and> writeFileSync (path_join sample_target ''src'') ''new'' fs2
              = Inr (fs2(segs (path_join sample_target ''src'') \<mapsto> File ''new'')))"
proof -
  let ?r = "copyTemplateFiles no_engine (Some (TDir specific_entries)) sample_target
      sample_options sample_fs"
  let ?p = "path_join sample_target ''src''"
  have a: "fst ?r = None"
    by code_simp
  then have a': "?r = (None, snd ?r)"
    by (simp add: prod_eq_iff)
  have b: "([''src'', ''index.ts''], ''// foo'')
        \<in> set (rendered_files no_engine sample_options specific_entries)"
    by code_simp
  have c: "list_all plain (segs sample_target)" "list_all plain [''src'', ''index.ts'']"
    by code_simp+
  have d: "distinct (map fst (dest_writes no_engine sample_options specific_entries
      sample_target))"
    by code_simp
  have t: "segs sample_target = [''w'', ''foo'']"
    by (simp add: sample_target_def)
  have "\<not> isl (mkdirSync ?p sample_fs)"
    by code_simp
  then obtain fs1 where m: "mkdirSync ?p sample_fs = Inr fs1"
    by (cases "mkdirSync ?p sample_fs") auto
  have "\<not> isl (writeFileSync ?p ''old'' sample_fs)"
    by code_simp
  then obtain fs2 where w: "writeFileSync ?p ''old'' sample_fs = Inr fs2"
    by (cases "writeFileSync ?p ''old'' sample_fs") auto
  from copyTemplateFiles_structure [of no_engine specific_entries sample_target sample_options
      sample_fs "snd ?r" "[''src'', ''index.ts'']" "''// foo''" ?p fs1 "''old''" fs2 "''new''"]
    a' b c d m w t
  have "snd ?r [''w'', ''foo'', ''src'', ''index.ts''] = Some (File ''// foo'')"
    and "mkdirSync ?p fs1 = Inr fs1"
    and "writeFileSync ?p ''new'' fs2 = Inr (fs2(segs ?p \<mapsto> File ''new''))"
    by simp_all
  with a b c d m w show ?thesis
    by blast
qed

section \<open>Failures of rendering\<close>

lemma mkdirSync_keeps_files:
  assumes "mkdirSync p fs = Inr fs1"
  shows "is_file fs1 D = is_file fs D"
  using assms by (auto simp: mkdirSync_def make_dirs_files split: if_splits)

lemma writeFileSync_keeps_files:
  assumes "writeFileSync p content fs = Inr fs1" and "is_file fs D"
  shows "is_file fs1 D"
  using assms(2) unfolding writeFileSync_result [OF assms(1)]
  by (auto simp: is_file_def node_at_def)

lemma copy_entries_keeps_files:
  assumes "copy_entries E entries target options fs = (r, fs')" and "is_file fs D"
  shows "is_file fs' D"
  using assms
proof (induction E options entries target arbitrary: fs fs' r rule: dest_writes.induct)
  case (1 E options target)
  then show ?case by simp
next
  case (2 E options name content entries target)
  show ?case
  proof (cases "renderFileName E name options")
    case (Inl err)
    with "2.prems" show ?thesis by simp
  next
    case n: (Inr destName)
    show ?thesis
    proof (cases "renderTemplate E content options")
      case (Inl err)
      with n "2.prems" show ?thesis by simp
    next
      case t: (Inr out)
      show ?thesis
      proof (cases "writeFileSync (path_join target destName) out fs")
        case (Inl err)
        with n t "2.prems" show ?thesis by simp
      next
        case (Inr fs1)
        with n t "2.prems"(1) have rest: "copy_entries E entries target options fs1 = (r, fs')"
          by simp
        from writeFileSync_keeps_files [OF Inr "2.prems"(2)] have "is_file fs1 D" .
        from "2.IH" [OF rest this] show ?thesis .
      qed
    qed
  qed
next
  case (3 E options name children entries target)
  show ?case
  proof (cases "renderFileName E name options")
    case (Inl err)
    with "3.prems" show ?thesis by simp
  next
    case n: (Inr destName)
    show ?thesis
    proof (cases "mkdirSync (path_join target destName) fs")
      case (Inl err)
      with n "3.prems" show ?thesis by simp
    next
      case m: (Inr fs1)
      obtain r2 fs2 where sub:
        "copy_entries E children (path_join target destName) options fs1 = (r2, fs2)"
        by fastforce
      from mkdirSync_keeps_files [OF m] "3.prems"(2) have "is_file fs1 D"
        by simp
      from "3.IH"(1) [OF n sub this] have f2: "is_file fs2 D" .
      show ?thesis
      proof (cases r2)
        case (Some err)
        with n m sub "3.prems"(1) f2 show ?thesis by simp
      next
        case None
        with n m sub "3.prems"(1) have "copy_entries E entries target options fs2 = (r, fs')"
          by simp
        from "3.IH"(2) [OF this f2] show ?thesis .
      qed
    qed
  qed
qed

lemma copyTemplateFiles_keeps_files:
  assumes "copyTemplateFiles E src target options fs = (r, fs')" and "is_file fs D"
  shows "is_file fs' D"
proof (cases src)
  case None
  with assms show ?thesis by simp
next
  case (Some t)
  with assms show ?thesis
    by (cases t) (auto dest: copy_entries_keeps_files)
qed

lemma copyTemplate_keeps_files:
  assumes "copyTemplate E common specific target options fs = (r, fs')" and "is_file fs D"
  shows "is_file fs' D"
proof -
  obtain r1 fs1 where c: "(if existsSync common then copyTemplateFiles E common target options fs
            else (None, fs)) = (r1, fs1)"
    by fastforce
  with assms(2) have f1: "is_file fs1 D"
    by (auto split: if_splits dest: copyTemplateFiles_keeps_files)
  show ?thesis
  proof (cases r1)
    case (Some err)
    with c assms(1) f1 show ?thesis
      by (simp add: copyTemplate_def)
  next
    case None
    with c assms(1) have "copyTemplateFiles E specific target options fs1 = (r, fs')"
      by (simp add: copyTemplate_def)
    from copyTemplateFiles_keeps_files [OF this f1] show ?thesis .
  qed
qed

lemma name_failure_is_fatal:
  assumes "ejs_render E (strip_sentinel name) (options_data options) default_delimiters = Inl cause"
  shows "copy_entries E ((name, file) # entries) target options fs
           = (Some (RenderFileNameError name cause), fs)"
  using assms by (simp add: renderFileName_def)

lemma content_failure_is_fatal:
  assumes "renderFileName E name options = Inr destName"
    and "ejs_render E content (template_data options) template_delimiters = Inl cause"
  shows "copy_entries E ((name, TFile content) # entries) target options fs
           = (Some (RenderTemplateError cause), fs)"
  using assms by (simp add: renderTemplate_def)

text \<open>
  C5. A template file whose content does not render makes the copy fail, and the files
  written before stay. But the error that \<open>renderTemplate\<close> raises holds the cause
  only: the same error results for \<^verbatim>\<open>a.txt\<close> and for \<^verbatim>\<open>b.txt\<close>, while the error of
  \<open>renderFileName\<close> holds the offending name.
\<close>

theorem render_error_omits_file:
  "fst (copyTemplate no_engine None (Some (TDir [(''a.txt'', TFile ''{{%='')])) sample_target
          sample_options sample_fs) = Some (RenderTemplateError (NoMatchingCloseTag ''{{%=''))
   \<and> fst (copyTemplate no_engine None (Some (TDir [(''b.txt'', TFile ''{{%='')])) sample_target
          sample_options sample_fs) = Some (RenderTemplateError (NoMatchingCloseTag ''{{%=''))
   \<and> fst (copyTemplate no_engine None (Some (TDir [(''<%'', TFile ''x'')])) sample_target
          sample_options sample_fs)
       = Some (RenderFileNameError ''<%'' (NoMatchingCloseTag ''<%''))"
  by code_simp

end
